theory Spec2Isabelle
  imports Complex_Main
begin

section \<open>The users service of CommitSpy-Core\<close>

text \<open>
  A shallow embedding of \<^verbatim>\<open>src/services/users.service.js\<close> (the current revision of the
  service, the one with \<^verbatim>\<open>deductWallet\<close> and \<^verbatim>\<open>registerwithtoken\<close>). Every action
  handler is a function from the state of the world (the user collection, the cacher, the log of
  adapter calls) to the settled outcome of the handler's promise and the new world.
\<close>

subsection \<open>JavaScript values and documents\<close>

text \<open>
  A document is a list of fields. A signed token is kept symbolic: \<open>Jwt p k\<close> is the
  string that \<^verbatim>\<open>jwt.sign\<close> makes of payload \<open>p\<close> under key \<open>k\<close>; every other token
  string is a \<open>Str\<close>. A JavaScript number is a double: \<open>Number q\<close> for a finite one, by
  its value, \<open>NaN\<close>, and \<open>Infinity True\<close> and \<open>Infinity False\<close> for plus and minus
  infinity.
\<close>

datatype val =
    Undefined
  | Null
  | Bool bool
  | Str string
  | Number rat
  | NaN
  | Infinity bool
  | Oid nat
  | Date int
  | Jwt "(string \<times> val) list" string

type_synonym doc = "(string \<times> val) list"

text \<open>JavaScript truthiness, as used by \<^verbatim>\<open>if (x)\<close>, \<^verbatim>\<open>!x\<close> and \<^verbatim>\<open>a || b\<close>.\<close>

fun truthy :: "val \<Rightarrow> bool" where
  "truthy Undefined = False"
| "truthy Null = False"
| "truthy (Bool b) = b"
| "truthy (Str s) = (s \<noteq> [])"
| "truthy (Number n) = (n \<noteq> 0)"
| "truthy NaN = False"
| "truthy (Infinity b) = True"
| "truthy (Oid n) = True"
| "truthy (Date t) = True"
| "truthy (Jwt p k) = True"

definition get_field :: "doc \<Rightarrow> string \<Rightarrow> val" where
  "get_field d k = (case map_of d k of None \<Rightarrow> Undefined | Some v \<Rightarrow> v)"

fun set_field :: "'k \<Rightarrow> 'v \<Rightarrow> ('k \<times> 'v) list \<Rightarrow> ('k \<times> 'v) list" where
  "set_field k v [] = [(k, v)]"
| "set_field k v ((k', v') # d) =
     (if k = k' then (k, v) # d else (k', v') # set_field k v d)"

text \<open>
  What an action resolves to: nothing (\<^verbatim>\<open>undefined\<close>), a document or null, or the
  object \<^verbatim>\<open>{ user }\<close> that \<^verbatim>\<open>transformEntity\<close> builds.
\<close>

datatype reply = Nothing | Doc_reply "doc option" | User_reply "doc option"

text \<open>The field names that occur in a reply, at either depth.\<close>

fun reply_fields :: "reply \<Rightarrow> string list" where
  "reply_fields Nothing = []"
| "reply_fields (Doc_reply None) = []"
| "reply_fields (Doc_reply (Some d)) = map fst d"
| "reply_fields (User_reply None) = [''user'']"
| "reply_fields (User_reply (Some d)) = ''user'' # map fst d"

fun user_of :: "reply \<Rightarrow> doc" where
  "user_of (User_reply (Some d)) = d"
| "user_of (Doc_reply (Some d)) = d"
| "user_of _ = []"

fun digits :: "nat \<Rightarrow> string" where
  "digits n =
     (if n < 10 then [char_of (48 + n)] else digits (n div 10) @ [char_of (48 + n mod 10)])"

subsection \<open>Errors\<close>

text \<open>
  \<open>MoleculerClientError message code type data\<close> is the service's own error; \<open>data\<close> is the
  list of \<^verbatim>\<open>{field, message}\<close> details. The others are raised by the libraries the
  service calls.
\<close>

datatype error =
    MoleculerClientError string nat string "(string \<times> string) list"
  | ValidationError string
  | JsonWebTokenError string
  | TokenExpiredError
  | StoreError string
  | TypeError string
  | HttpError string

subsection \<open>The world: collection, cacher, call log\<close>

datatype update = Set_fields doc | Inc string val

datatype store_call =
    FindOne string val
  | FindById val
  | Insert doc
  | UpdateById val update

record world =
  docs :: "doc list"
  reachable :: bool
  calls :: "store_call list"
  cache :: "(val \<times> reply \<times> int) list"

record ctx =
  meta_token :: val
  meta_user1_id :: val
  clock :: int

text \<open>
  What the service takes from its libraries, its runtime and its configuration: the signing
  secret, the MD5 digest, bcrypt, the validator's email rule, the provider's answer to
  \<^verbatim>\<open>GET https://api.github.com/user\<close> for given access parameters, and of the
  JavaScript runtime
  \<^item> \<open>round_double q\<close>, the double nearest to \<open>q\<close> (an infinity on overflow);
  \<^item> \<open>string_to_number s\<close>, the number a string converts to, \<open>number_to_string q\<close>,
    the string of a number that is not a plain integer below \<open>10\<^sup>2\<^sup>1\<close>,
    \<open>date_to_string t\<close>, the string of a date, and \<open>jwt_compact p k\<close>, the characters of
    the token that \<open>Jwt p k\<close> stands for;
  \<^item> \<open>setDate_plus t n\<close>, the time stamp in milliseconds of the date \<open>d\<close> after
    \<^verbatim>\<open>d.setDate(d.getDate() + n)\<close> when it was \<open>t\<close> before: \<open>n\<close> calendar days later
    in the local time of the server.
\<close>

record env =
  JWT_SECRET :: string
  md5_hex :: "string \<Rightarrow> string"
  bcrypt_hashSync :: "string \<Rightarrow> string"
  bcrypt_compare :: "string \<Rightarrow> string \<Rightarrow> bool"
  is_email :: "string \<Rightarrow> bool"
  github_user :: "val \<Rightarrow> val \<Rightarrow> val \<Rightarrow> error + doc"
  round_double :: "rat \<Rightarrow> val"
  string_to_number :: "string \<Rightarrow> val"
  number_to_string :: "rat \<Rightarrow> string"
  date_to_string :: "int \<Rightarrow> string"
  jwt_compact :: "(string \<times> val) list \<Rightarrow> string \<Rightarrow> string"
  setDate_plus :: "int \<Rightarrow> int \<Rightarrow> int"

subsection \<open>Numbers and strings of the runtime\<close>

definition is_integer :: "rat \<Rightarrow> bool" where
  "is_integer q \<longleftrightarrow> of_int \<lfloor>q\<rfloor> = q"

text \<open>String conversion, as a template literal does it.\<close>

fun to_string :: "env \<Rightarrow> val \<Rightarrow> string" where
  "to_string e (Str s) = s"
| "to_string e (Number q) =
     (if is_integer q \<and> \<bar>q\<bar> < 10 ^ 21
      then (if q < 0 then CHR ''-'' # digits (nat \<lfloor>- q\<rfloor>) else digits (nat \<lfloor>q\<rfloor>))
      else number_to_string e q)"
| "to_string e NaN = ''NaN''"
| "to_string e (Infinity b) = (if b then ''Infinity'' else ''-Infinity'')"
| "to_string e (Bool b) = (if b then ''true'' else ''false'')"
| "to_string e Undefined = ''undefined''"
| "to_string e Null = ''null''"
| "to_string e (Oid n) = digits n"
| "to_string e (Date t) = date_to_string e t"
| "to_string e (Jwt p k) = jwt_compact e p k"

fun is_numeric :: "val \<Rightarrow> bool" where
  "is_numeric (Number q) = True"
| "is_numeric NaN = True"
| "is_numeric (Infinity b) = True"
| "is_numeric _ = False"

text \<open>Conversion to a number, as an arithmetic operator does it to its operand.\<close>

fun to_number :: "env \<Rightarrow> val \<Rightarrow> val" where
  "to_number e (Number q) = Number q"
| "to_number e NaN = NaN"
| "to_number e (Infinity b) = Infinity b"
| "to_number e Undefined = NaN"
| "to_number e Null = Number 0"
| "to_number e (Bool b) = Number (if b then 1 else 0)"
| "to_number e (Str s) = string_to_number e s"
| "to_number e (Date t) = Number (of_int t)"
| "to_number e (Oid n) = string_to_number e (digits n)"
| "to_number e (Jwt p k) = string_to_number e (jwt_compact e p k)"

text \<open>Unary minus: \<^verbatim>\<open>-x\<close>. Negation of a double is exact.\<close>

definition js_negate :: "env \<Rightarrow> val \<Rightarrow> val" where
  "js_negate e v =
     (case to_number e v of
        Number q \<Rightarrow> Number (- q)
      | Infinity b \<Rightarrow> Infinity (\<not> b)
      | _ \<Rightarrow> NaN)"

text \<open>
  The sum of two doubles. It is the exact sum rounded to the nearest double; an integer of
  magnitude at most \<open>2\<^sup>5\<^sup>3\<close> is a double, so such a sum is exact.
\<close>

fun double_add :: "env \<Rightarrow> val \<Rightarrow> val \<Rightarrow> val" where
  "double_add e (Number x) (Number y) =
     (if is_integer (x + y) \<and> \<bar>x + y\<bar> \<le> 2 ^ 53 then Number (x + y) else round_double e (x + y))"
| "double_add e (Infinity a) (Infinity b) = (if a = b then Infinity a else NaN)"
| "double_add e (Infinity a) (Number y) = Infinity a"
| "double_add e (Number x) (Infinity b) = Infinity b"
| "double_add e _ _ = NaN"

subsection \<open>Awaited computations\<close>

text \<open>
  An asynchronous step maps the world to the settled outcome of its promise (\<open>Inl\<close>: rejected)
  and the new world. \<open>await m f\<close> is \<^verbatim>\<open>const x = await m; f(x)\<close>: a rejection of
  \<open>m\<close> is thrown at the \<^verbatim>\<open>await\<close> and skips \<open>f\<close>.
\<close>

type_synonym 'a async = "world \<Rightarrow> (error + 'a) \<times> world"

definition succeed :: "'a \<Rightarrow> 'a async" where
  "succeed v w = (Inr v, w)"

definition throw :: "error \<Rightarrow> 'a async" where
  "throw e w = (Inl e, w)"

definition await :: "'a async \<Rightarrow> ('a \<Rightarrow> 'b async) \<Rightarrow> 'b async" where
  "await m f w = (case m w of (Inl e, w') \<Rightarrow> (Inl e, w') | (Inr v, w') \<Rightarrow> f v w')"

text \<open>\<^verbatim>\<open>try { body } catch (err) { handler(err) }\<close> around awaited steps.\<close>

definition try_catch :: "'a async \<Rightarrow> (error \<Rightarrow> 'a async) \<Rightarrow> 'a async" where
  "try_catch body handler w =
     (case body w of (Inl e, w') \<Rightarrow> handler e w' | (Inr v, w') \<Rightarrow> (Inr v, w'))"

subsection \<open>The adapter (moleculer-db over Mongoose)\<close>

text \<open>
  The record store is a collaborator of the service. Each adapter call is logged; it rejects
  when the store cannot be reached.
\<close>

definition log_call :: "store_call \<Rightarrow> world \<Rightarrow> world" where
  "log_call c w = w\<lparr>calls := calls w @ [c]\<rparr>"

definition findOne :: "string \<Rightarrow> val \<Rightarrow> doc option async" where
  "findOne k v w =
     (if reachable w
      then (Inr (find (\<lambda>d. get_field d k = v) (docs w)), log_call (FindOne k v) w)
      else (Inl (StoreError ''unreachable''), log_call (FindOne k v) w))"

definition findById :: "val \<Rightarrow> doc option async" where
  "findById i w =
     (if reachable w
      then (Inr (find (\<lambda>d. get_field d ''_id'' = i) (docs w)), log_call (FindById i) w)
      else (Inl (StoreError ''unreachable''), log_call (FindById i) w))"

fun oid_num :: "val \<Rightarrow> nat" where
  "oid_num (Oid n) = n"
| "oid_num _ = 0"

definition fresh_oid :: "doc list \<Rightarrow> val" where
  "fresh_oid ds = Oid (Suc (fold (\<lambda>d m. max (oid_num (get_field d ''_id'')) m) ds 0))"

text \<open>
  \<open>insert\<close> keeps an \<^verbatim>\<open>_id\<close> the entity brings and assigns a fresh one otherwise; an
  \<^verbatim>\<open>_id\<close> already in the collection is a duplicate key.
\<close>

definition insert_doc :: "doc \<Rightarrow> doc async" where
  "insert_doc entity w =
     (if \<not> reachable w then (Inl (StoreError ''unreachable''), log_call (Insert entity) w)
      else let i = (if get_field entity ''_id'' = Undefined then fresh_oid (docs w)
                    else get_field entity ''_id'');
               d = set_field ''_id'' i entity
           in if find (\<lambda>x. get_field x ''_id'' = i) (docs w) \<noteq> None
              then (Inl (StoreError ''duplicate key''), log_call (Insert entity) w)
              else (Inr d, log_call (Insert entity) (w\<lparr>docs := docs w @ [d]\<rparr>)))"

text \<open>
  What \<^verbatim>\<open>$inc\<close> stores in a field: the operand when the field is absent, the sum of the
  two doubles when the field holds a number; on any other value the store refuses.
\<close>

definition inc_value :: "env \<Rightarrow> val \<Rightarrow> val \<Rightarrow> error + val" where
  "inc_value e old n =
     (if old = Undefined then Inr n
      else if is_numeric old then Inr (double_add e old n)
      else Inl (StoreError ''Cannot apply $inc to a value of non-numeric type''))"

fun apply_update :: "env \<Rightarrow> update \<Rightarrow> doc \<Rightarrow> error + doc" where
  "apply_update e (Set_fields nd) d = Inr (fold (\<lambda>(k, v). set_field k v) nd d)"
| "apply_update e (Inc k n) d =
     (case inc_value e (get_field d k) n of
        Inr v \<Rightarrow> Inr (set_field k v d)
      | Inl err \<Rightarrow> Inl err)"

fun replace_doc :: "val \<Rightarrow> doc \<Rightarrow> doc list \<Rightarrow> doc list" where
  "replace_doc i d' [] = []"
| "replace_doc i d' (d # ds) =
     (if get_field d ''_id'' = i then d' # ds else d # replace_doc i d' ds)"

text \<open>
  \<open>updateById\<close> is \<^verbatim>\<open>findByIdAndUpdate(_id, update, {new: true})\<close>: one store
  operation, which resolves to the updated document, or to null when no document has the id.
\<close>

definition updateById :: "env \<Rightarrow> val \<Rightarrow> update \<Rightarrow> doc option async" where
  "updateById e i u w =
     (if \<not> reachable w then (Inl (StoreError ''unreachable''), log_call (UpdateById i u) w)
      else case find (\<lambda>d. get_field d ''_id'' = i) (docs w) of
             None \<Rightarrow> (Inr None, log_call (UpdateById i u) w)
           | Some d \<Rightarrow>
               (case apply_update e u d of
                  Inl err \<Rightarrow> (Inl err, log_call (UpdateById i u) w)
                | Inr d' \<Rightarrow>
                    (Inr (Some d'),
                     log_call (UpdateById i u) (w\<lparr>docs := replace_doc i d' (docs w)\<rparr>))))"

subsection \<open>Library semantics the handlers rely on\<close>

text \<open>
  \<^verbatim>\<open>jwt.sign\<close> drops undefined claims and stamps \<^verbatim>\<open>iat\<close>; \<^verbatim>\<open>jwt.verify\<close>
  checks the signature first and the \<^verbatim>\<open>exp\<close> claim afterwards, against the clock in
  seconds.
\<close>

definition jwt_sign :: "doc \<Rightarrow> string \<Rightarrow> int \<Rightarrow> val" where
  "jwt_sign payload secret now =
     Jwt (filter (\<lambda>(k, v). v \<noteq> Undefined) payload @
            [(''iat'', Number (of_int (now div 1000)))]) secret"

definition jwt_verify :: "val \<Rightarrow> string \<Rightarrow> int \<Rightarrow> error + doc" where
  "jwt_verify token secret now =
     (case token of
        Jwt p k \<Rightarrow>
          if k \<noteq> secret then Inl (JsonWebTokenError ''invalid signature'')
          else (case get_field p ''exp'' of
                  Undefined \<Rightarrow> Inr p
                | Number x \<Rightarrow>
                    if of_int (now div 1000) \<ge> x then Inl TokenExpiredError else Inr p
                | NaN \<Rightarrow> Inr p
                | Infinity b \<Rightarrow> if b then Inr p else Inl TokenExpiredError
                | _ \<Rightarrow> Inl (JsonWebTokenError ''invalid exp value''))
      | _ \<Rightarrow> Inl (JsonWebTokenError ''jwt malformed''))"

text \<open>\<^verbatim>\<open>settings.fields\<close>, the public fields.\<close>

definition settings_fields :: "string list" where
  "settings_fields = [''_id'', ''username'', ''git_id'', ''email'', ''twitter'', ''avatar'']"

definition filterFields :: "doc \<Rightarrow> string list \<Rightarrow> doc" where
  "filterFields d names =
     List.map_filter
       (\<lambda>k. if get_field d k = Undefined then None else Some (k, get_field d k)) names"

text \<open>
  \<^verbatim>\<open>this.transformDocuments(ctx, {}, doc)\<close> of the moleculer-db mixin: with no
  \<^verbatim>\<open>fields\<close> parameter it keeps the fields of \<^verbatim>\<open>settings.fields\<close>; no document
  gives no document.
\<close>

definition transformDocuments :: "doc option \<Rightarrow> doc option" where
  "transformDocuments docs' = map_option (\<lambda>d. filterFields d settings_fields) docs'"

text \<open>\<^verbatim>\<open>settings.entityValidator\<close>, checked by \<^verbatim>\<open>this.validateEntity\<close>.\<close>

fun string_min :: "nat \<Rightarrow> val \<Rightarrow> bool" where
  "string_min n (Str s) = (n \<le> length s)"
| "string_min n _ = False"

fun optional_string :: "val \<Rightarrow> bool" where
  "optional_string Undefined = True"
| "optional_string Null = True"
| "optional_string (Str s) = True"
| "optional_string _ = False"

fun email_ok :: "env \<Rightarrow> val \<Rightarrow> bool" where
  "email_ok e (Str s) = is_email e s"
| "email_ok e _ = False"

definition entityValidator :: "env \<Rightarrow> doc \<Rightarrow> bool" where
  "entityValidator e entity \<longleftrightarrow>
     string_min 2 (get_field entity ''username'') \<and>
     string_min 2 (get_field entity ''git_id'') \<and>
     string_min 6 (get_field entity ''password'') \<and>
     email_ok e (get_field entity ''email'') \<and>
     optional_string (get_field entity ''avatar'') \<and>
     optional_string (get_field entity ''twitter'')"

definition validateEntity :: "env \<Rightarrow> doc \<Rightarrow> doc async" where
  "validateEntity e entity =
     (if entityValidator e entity then succeed entity
      else throw (ValidationError ''Entity validation error!''))"

text \<open>
  \<^verbatim>\<open>this.entityChanged(type, json, ctx)\<close> of the mixin clears the cached entries of the
  service.
\<close>

definition entityChanged :: "string \<Rightarrow> reply \<Rightarrow> unit async" where
  "entityChanged type json w = (Inr (), w\<lparr>cache := []\<rparr>)"

text \<open>\<^verbatim>\<open>this.getById(id)\<close> of the mixin: the adapter's document, untransformed, or null.\<close>

definition getById :: "val \<Rightarrow> doc option async" where
  "getById i = findById i"

subsection \<open>Methods\<close>

text \<open>
  \<^verbatim>\<open>exp.setDate(today.getDate() + 60)\<close>: 60 calendar days ahead in the server's local
  time, which is not always 60 times 24 hours. \<^verbatim>\<open>exp\<close> is in seconds.
\<close>

definition generateJWT :: "env \<Rightarrow> int \<Rightarrow> doc \<Rightarrow> val" where
  "generateJWT e now user =
     jwt_sign
       [(''id'', get_field user ''_id''),
        (''username'', get_field user ''username''),
        (''exp'', Number (of_int (setDate_plus e now 60 div 1000)))]
       (JWT_SECRET e) now"

definition gravatar :: "env \<Rightarrow> string \<Rightarrow> val" where
  "gravatar e email = Str (''https://www.gravatar.com/avatar/'' @ md5_hex e email @ ''?d=robohash'')"

definition transformEntity :: "env \<Rightarrow> int \<Rightarrow> doc option \<Rightarrow> bool \<Rightarrow> val \<Rightarrow> reply async" where
  "transformEntity e now user withToken token =
     (case user of
        None \<Rightarrow> succeed (User_reply None)
      | Some u \<Rightarrow>
          await
            (if truthy (get_field u ''avatar'')
             then succeed (set_field ''avatar'' (get_field u ''avatar'') u)
             else (case get_field u ''email'' of
                     Str m \<Rightarrow> succeed (set_field ''avatar'' (gravatar e m) u)
                   | _ \<Rightarrow> throw (TypeError ''The data argument must be of type string'')))
            (\<lambda>u1.
               succeed (User_reply (Some
                 (if withToken
                  then set_field ''token''
                         (if truthy token then token else generateJWT e now u1) u1
                  else u1)))))"

subsection \<open>Actions\<close>

definition username_exists :: error where
  "username_exists =
     MoleculerClientError ''Username is exist!'' 422 [] [(''username'', ''is exist'')]"

definition email_exists :: error where
  "email_exists = MoleculerClientError ''Email is exist!'' 422 [] [(''email'', ''is exist'')]"

definition create :: "env \<Rightarrow> ctx \<Rightarrow> doc \<Rightarrow> reply async" where
  "create e c entity =
     await (validateEntity e entity) (\<lambda>_.
     await
       (if truthy (get_field entity ''username'')
        then await (findOne ''username'' (get_field entity ''username''))
               (\<lambda>found. if found \<noteq> None then throw username_exists else succeed ())
        else succeed ()) (\<lambda>_.
     await
       (if truthy (get_field entity ''email'')
        then await (findOne ''email'' (get_field entity ''email''))
               (\<lambda>found. if found \<noteq> None then throw email_exists else succeed ())
        else succeed ()) (\<lambda>_.
     (case get_field entity ''password'' of
        Str p \<Rightarrow>
          await
            (insert_doc
               (set_field ''createdAt'' (Date (clock c))
                  (set_field ''password'' (Str (bcrypt_hashSync e p)) entity))) (\<lambda>doc.
          await (transformEntity e (clock c) (transformDocuments (Some doc)) True (meta_token c))
            (\<lambda>json.
          await (entityChanged ''created'' json) (\<lambda>_. succeed json)))
      | _ \<Rightarrow> throw (TypeError ''Illegal arguments'')))))"

definition login :: "env \<Rightarrow> ctx \<Rightarrow> string \<Rightarrow> string \<Rightarrow> reply async" where
  "login e c email password =
     await (findOne ''email'' (Str email)) (\<lambda>user.
     (case user of
        None \<Rightarrow>
          throw (MoleculerClientError ''Email or password is invalid!'' 422 []
                   [(''email'', ''is not found'')])
      | Some u \<Rightarrow>
          (case get_field u ''password'' of
             Str h \<Rightarrow>
               if \<not> bcrypt_compare e password h
               then throw (MoleculerClientError ''Wrong password!'' 422 []
                             [(''email'', ''is not found'')])
               else transformEntity e (clock c) (transformDocuments (Some u)) True (meta_token c)
           | _ \<Rightarrow> throw (TypeError ''Illegal arguments''))))"

definition resolveToken_handler :: "env \<Rightarrow> ctx \<Rightarrow> val \<Rightarrow> reply async" where
  "resolveToken_handler e c token =
     await (\<lambda>w. (jwt_verify token (JWT_SECRET e) (clock c), w)) (\<lambda>decoded.
     if truthy (get_field decoded ''id'')
     then await (getById (get_field decoded ''id'')) (\<lambda>user. succeed (Doc_reply user))
     else succeed Nothing)"

text \<open>
  The action declares \<^verbatim>\<open>cache: { keys: ["token"], ttl: 60 * 60 }\<close>. The broker's cacher
  answers from a live entry without calling the handler, and stores what the handler resolves
  to for \<open>ttl\<close> seconds. An entry whose content is null, or whose time is over, is no hit.
\<close>

definition cache_get :: "world \<Rightarrow> val \<Rightarrow> int \<Rightarrow> reply option" where
  "cache_get w key now =
     (case map_of (cache w) key of
        None \<Rightarrow> None
      | Some (content, expire) \<Rightarrow>
          if expire < now \<or> content = Doc_reply None \<or> content = Nothing then None
          else Some content)"

definition cache_set :: "val \<Rightarrow> reply \<Rightarrow> int \<Rightarrow> world \<Rightarrow> world" where
  "cache_set key content expire w = w\<lparr>cache := set_field key (content, expire) (cache w)\<rparr>"

definition resolveToken :: "env \<Rightarrow> ctx \<Rightarrow> val \<Rightarrow> reply async" where
  "resolveToken e c token w =
     (case cache_get w token (clock c) of
        Some content \<Rightarrow> (Inr content, w)
      | None \<Rightarrow>
          (case resolveToken_handler e c token w of
             (Inl err, w') \<Rightarrow> (Inl err, w')
           | (Inr result, w') \<Rightarrow>
               (Inr result, cache_set token result (clock c + 60 * 60 * 1000) w')))"

definition me :: "env \<Rightarrow> ctx \<Rightarrow> reply async" where
  "me e c =
     await (getById (meta_user1_id c)) (\<lambda>user.
     if user = None then throw (MoleculerClientError ''User not found!'' 400 [] [])
     else transformEntity e (clock c) (transformDocuments user) True (meta_token c))"

definition updateMyself :: "env \<Rightarrow> ctx \<Rightarrow> doc \<Rightarrow> reply async" where
  "updateMyself e c newData =
     await
       (if truthy (get_field newData ''username'')
        then await (findOne ''username'' (get_field newData ''username''))
               (\<lambda>found. case found of
                   Some f \<Rightarrow>
                     if to_string e (get_field f ''_id'') \<noteq> to_string e (meta_user1_id c)
                     then throw username_exists else succeed ()
                 | None \<Rightarrow> succeed ())
        else succeed ()) (\<lambda>_.
     await
       (if truthy (get_field newData ''email'')
        then await (findOne ''email'' (get_field newData ''email''))
               (\<lambda>found. case found of
                   Some f \<Rightarrow>
                     if to_string e (get_field f ''_id'') \<noteq> to_string e (meta_user1_id c)
                     then throw email_exists else succeed ()
                 | None \<Rightarrow> succeed ())
        else succeed ()) (\<lambda>_.
     await
       (updateById e (meta_user1_id c)
          (Set_fields (set_field ''updatedAt'' (Date (clock c)) newData))) (\<lambda>doc.
     await (transformEntity e (clock c) (transformDocuments doc) True (meta_token c)) (\<lambda>json.
     await (entityChanged ''updated'' json) (\<lambda>_. succeed json)))))"

text \<open>
  \<^verbatim>\<open>ctx.params.payload\<close>: an object, of which the handler reads \<^verbatim>\<open>_id\<close> and
  \<^verbatim>\<open>cost\<close>; nothing checks what they hold.
\<close>

record wallet_payload =
  payload_id :: val
  payload_cost :: val

definition internal_error :: error where
  "internal_error =
     MoleculerClientError ''Internal Error!'' 500 [] [(''Failure'', '' Internal Failure'')]"

text \<open>
  A \<^verbatim>\<open>try\<close> block that awaits nothing completes synchronously: \<open>Inl\<close> is an exception
  thrown while it runs, \<open>Inr\<close> the value it returns. An \<^verbatim>\<open>async\<close> function that returns
  a promise settles as that promise does.
\<close>

definition try_sync :: "error + 'a \<Rightarrow> (error \<Rightarrow> error + 'a) \<Rightarrow> error + 'a" where
  "try_sync body handler = (case body of Inl err \<Rightarrow> handler err | Inr v \<Rightarrow> Inr v)"

definition async_return :: "error + (error + 'a) \<Rightarrow> error + 'a" where
  "async_return r = (case r of Inl err \<Rightarrow> Inl err | Inr promise \<Rightarrow> promise)"

text \<open>
  In \<^verbatim>\<open>deductWallet\<close> the promise \<open>user\<close> of \<^verbatim>\<open>updateById\<close> is returned from inside
  the \<^verbatim>\<open>try\<close> block without an \<^verbatim>\<open>await\<close>.
\<close>

definition deductWallet :: "env \<Rightarrow> wallet_payload \<Rightarrow> reply async" where
  "deductWallet e payload w =
     (let (user, w') =
            updateById e (payload_id payload)
              (Inc ''wallet'' (js_negate e (payload_cost payload))) w
      in (async_return
            (try_sync (Inr (map_sum id Doc_reply user)) (\<lambda>err. Inl internal_error)), w'))"

definition getbygitID :: "val \<Rightarrow> reply async" where
  "getbygitID i =
     await (findOne ''git_id'' i) (\<lambda>user.
     if user = None then throw (MoleculerClientError ''User not found!'' 404 [] [])
     else succeed (Doc_reply (transformDocuments user)))"

record regtoken_params =
  param_password :: val
  param_access_token :: val
  param_scope :: val
  param_token_type :: val
  param_email :: val

definition oauth_candidate :: "env \<Rightarrow> regtoken_params \<Rightarrow> doc \<Rightarrow> doc" where
  "oauth_candidate e ps data =
     [(''email'', param_email ps),
      (''git_id'', Str (to_string e (get_field data ''id''))),
      (''username'', get_field data ''name''),
      (''password'', param_password ps),
      (''avatar'', get_field data ''avatar_url''),
      (''twitter'', get_field data ''twitter_username'')]"

definition bad_details :: error where
  "bad_details = MoleculerClientError ''bad details!'' 422 [] []"

definition registerwithtoken :: "env \<Rightarrow> ctx \<Rightarrow> regtoken_params \<Rightarrow> reply async" where
  "registerwithtoken e c ps =
     try_catch
       (await
          (\<lambda>w. (github_user e (param_access_token ps) (param_token_type ps) (param_scope ps), w))
          (\<lambda>data. create e c (oauth_candidate e ps data)))
       (\<lambda>err. throw bad_details)"

subsection \<open>A concrete deployment, for running the handlers\<close>

text \<open>
  A server whose local time is UTC, so that a calendar day is 86400000 ms. The examples use no
  number that needs rounding and no numeric string, and print no fraction, date or token:
  \<open>round_double\<close> and \<open>string_to_number\<close> of the example are only right on doubles and on
  strings that are no numbers, and its three printing functions are never called.
\<close>

definition example_env :: env where
  "example_env =
     \<lparr>JWT_SECRET = ''jwt-conduit-secret'',
      md5_hex = (\<lambda>s. rev s),
      bcrypt_hashSync = (\<lambda>p. ''$2a$10$'' @ p),
      bcrypt_compare = (\<lambda>p h. h = ''$2a$10$'' @ p),
      is_email = (\<lambda>s. CHR ''@'' \<in> set s),
      github_user = (\<lambda>a t s.
        if a = Str ''gho_valid''
        then Inr [(''id'', Number 42), (''name'', Str ''alice''),
                  (''avatar_url'', Str ''https://avatars.example/42'')]
        else Inl (HttpError ''Request failed with status code 401'')),
      round_double = (\<lambda>q. Number q),
      string_to_number = (\<lambda>s. NaN),
      number_to_string = (\<lambda>q. []),
      date_to_string = (\<lambda>t. []),
      jwt_compact = (\<lambda>p k. []),
      setDate_plus = (\<lambda>t n. t + n * 86400000)\<rparr>"

definition alice :: doc where
  "alice =
     [(''_id'', Oid 1), (''username'', Str ''alice''), (''git_id'', Str ''42''),
      (''email'', Str ''alice@example.org''), (''password'', Str ''$2a$10$secret1''),
      (''wallet'', Number 100), (''createdAt'', Date 0)]"

definition example_world :: world where
  "example_world = \<lparr>docs = [alice], reachable = True, calls = [], cache = []\<rparr>"

definition anonymous :: "int \<Rightarrow> ctx" where
  "anonymous now = \<lparr>meta_token = Undefined, meta_user1_id = Undefined, clock = now\<rparr>"

definition bob_candidate :: doc where
  "bob_candidate =
     [(''username'', Str ''bob''), (''git_id'', Str ''77''), (''password'', Str ''hunter22''),
      (''email'', Str ''bob@example.org'')]"

definition short_token :: val where
  "short_token =
     Jwt [(''id'', Oid 1), (''username'', Str ''alice''), (''exp'', Number 5), (''iat'', Number 0)]
       ''jwt-conduit-secret''"

definition ghost_token :: val where
  "ghost_token =
     Jwt [(''id'', Oid 9), (''username'', Str ''ghost''), (''exp'', Number 5000)]
       ''jwt-conduit-secret''"

definition alice_token :: val where
  "alice_token =
     Jwt [(''id'', Oid 1), (''username'', Str ''alice''), (''exp'', Number 5000)]
       ''jwt-conduit-secret''"

definition idless_token :: val where
  "idless_token =
     Jwt [(''username'', Str ''alice''), (''exp'', Number 5000)] ''jwt-conduit-secret''"

definition alice_again :: doc where
  "alice_again =
     [(''username'', Str ''alice''), (''git_id'', Str ''43''), (''password'', Str ''hunter22''),
      (''email'', Str ''alice@example.org'')]"

definition oauth_params :: regtoken_params where
  "oauth_params =
     \<lparr>param_password = Str ''hunter22'', param_access_token = Str ''gho_valid'',
      param_scope = Str ''user'', param_token_type = Str ''bearer'',
      param_email = Str ''alice2@example.org''\<rparr>"

definition carol_candidate :: doc where
  "carol_candidate =
     [(''username'', Str ''carol''), (''git_id'', Str ''88''), (''password'', Str ''hunter22''),
      (''email'', Str ''alice@example.org'')]"

definition bob_again :: doc where
  "bob_again =
     [(''username'', Str ''bob''), (''git_id'', Str ''78''), (''password'', Str ''hunter23''),
      (''email'', Str ''bob2@example.org'')]"

definition alice_session :: "int \<Rightarrow> ctx" where
  "alice_session now = \<lparr>meta_token = alice_token, meta_user1_id = Oid 1, clock = now\<rparr>"

section \<open>Properties\<close>

subsection \<open>Fields of documents\<close>

lemma map_of_set_field: "map_of (set_field k v d) = (map_of d)(k \<mapsto> v)"
  by (induction d) (auto simp: fun_upd_twist)

lemma get_field_set_field:
  "get_field (set_field k v d) k' = (if k' = k then v else get_field d k')"
  by (simp add: get_field_def map_of_set_field)

lemma keys_set_field: "fst ` set (set_field k v d) = insert k (fst ` set d)"
  by (simp add: dom_map_of_conv_image_fst[symmetric] map_of_set_field)

lemma keys_filterFields: "fst ` set (filterFields d names) \<subseteq> set names"
  by (induction names) (auto simp: filterFields_def map_filter_simps split: if_splits)

lemma get_field_filterFields:
  "get_field (filterFields d names) k = (if k \<in> set names then get_field d k else Undefined)"
proof (induction names)
  case Nil
  show ?case by (simp add: filterFields_def get_field_def map_filter_simps)
next
  case (Cons n ns)
  then show ?case
    by (auto simp: filterFields_def get_field_def map_filter_simps split: option.splits)
qed

lemma password_not_public: "''password'' \<notin> set settings_fields"
  by (simp add: settings_fields_def)

lemma transformEntity_hides_password:
  assumes "transformEntity e now (transformDocuments od) wt tok w = (Inr r, w')"
  shows "''password'' \<notin> set (reply_fields r)"
proof (cases od)
  case None
  with assms show ?thesis
    by (auto simp: transformEntity_def transformDocuments_def succeed_def)
next
  case (Some d)
  have k: "''password'' \<notin> fst ` set (filterFields d settings_fields)"
    using keys_filterFields[of d settings_fields] password_not_public by blast
  from assms Some k show ?thesis
    by (auto simp: transformEntity_def transformDocuments_def succeed_def throw_def await_def
          keys_set_field split: if_splits val.splits)
qed

lemma transformEntity_world:
  "transformEntity e now od wt tok w = (r, w') \<Longrightarrow> w' = w"
  by (auto simp: transformEntity_def succeed_def throw_def await_def
        split: option.splits if_splits val.splits)

subsection \<open>Awaited steps, fresh identifiers, what a successful create has done\<close>

lemma pair_fst: "fst x = a \<Longrightarrow> x = (a, snd x)"
  by (cases x) simp

lemma await_InrE:
  assumes "await m f w = (Inr r, w')"
  obtains v w1 where "m w = (Inr v, w1)" and "f v w1 = (Inr r, w')"
  using assms by (auto simp: await_def split: prod.splits sum.splits)

lemma fold_max_ge: "a \<le> fold (\<lambda>d m. max (f d) m) ds (a::nat)"
  by (induction ds arbitrary: a) (auto intro: order_trans[OF max.cobounded2])

lemma fold_max_member: "d \<in> set ds \<Longrightarrow> f d \<le> fold (\<lambda>d m. max (f d) m) ds (a::nat)"
proof (induction ds arbitrary: a)
  case Nil
  then show ?case by simp
next
  case (Cons x xs)
  show ?case
  proof (cases "d = x")
    case True
    have "f x \<le> max (f x) a" by simp
    also have "\<dots> \<le> fold (\<lambda>d m. max (f d) m) xs (max (f x) a)" by (rule fold_max_ge)
    finally show ?thesis using True by simp
  next
    case False
    with Cons show ?thesis by simp
  qed
qed

lemma fresh_oid_fresh: "find (\<lambda>x. get_field x ''_id'' = fresh_oid ds) ds = None"
proof -
  have "get_field d ''_id'' \<noteq> fresh_oid ds" if "d \<in> set ds" for d
  proof
    assume eq: "get_field d ''_id'' = fresh_oid ds"
    have "oid_num (get_field d ''_id'') \<le> fold (\<lambda>d m. max (oid_num (get_field d ''_id'')) m) ds 0"
      using that by (rule fold_max_member)
    with eq show False by (simp add: fresh_oid_def)
  qed
  then show ?thesis by (simp add: find_None_iff)
qed

lemma string_min_truthy: "string_min n v \<Longrightarrow> 0 < n \<Longrightarrow> truthy v"
  by (cases v) auto

lemma transformEntity_eq:
  "(transformEntity e now od wt tok w = (r, w')) =
     (fst (transformEntity e now od wt tok w) = r \<and> w' = w)"
  by (cases "transformEntity e now od wt tok w") (auto dest: transformEntity_world)

lemma create_success:
  assumes "create e c entity w = (Inr r, w')"
  shows "\<exists>p doc w0 w1.
           insert_doc (set_field ''createdAt'' (Date (clock c))
                        (set_field ''password'' (Str (bcrypt_hashSync e p)) entity)) w0 = (Inr doc, w1) \<and>
           fst (transformEntity e (clock c) (transformDocuments (Some doc)) True (meta_token c) w1)
             = Inr r \<and>
           get_field entity ''password'' = Str p \<and>
           docs w0 = docs w \<and> reachable w0 = reachable w \<and>
           w' = w1\<lparr>cache := []\<rparr>"
  using assms unfolding create_def
  apply (elim await_InrE)
  apply (auto simp: validateEntity_def succeed_def throw_def findOne_def log_call_def entityChanged_def
      transformEntity_eq
      split: if_splits val.splits elim!: await_InrE)
     apply ((rule exI conjI | assumption | simp)+)
  done


subsection \<open>The transformed replies carry no password\<close>

lemma transformEntity_fst_hides_password:
  "fst (transformEntity e now (transformDocuments od) wt tok w) = Inr r \<Longrightarrow>
     ''password'' \<notin> set (reply_fields r)"
  using transformEntity_hides_password [of e now od wt tok w r]
  by (simp add: transformEntity_eq)

lemma create_hides_password:
  assumes "create e c entity w = (Inr r, w')"
  shows "''password'' \<notin> set (reply_fields r)"
  using create_success [OF assms] transformEntity_fst_hides_password by blast

lemma login_hides_password:
  assumes "login e c email password w = (Inr r, w')"
  shows "''password'' \<notin> set (reply_fields r)"
  using assms unfolding login_def
  by (auto simp: throw_def transformEntity_eq elim!: await_InrE
        split: option.splits val.splits if_splits
        dest: transformEntity_fst_hides_password)

lemma me_hides_password:
  assumes "me e c w = (Inr r, w')"
  shows "''password'' \<notin> set (reply_fields r)"
  using assms unfolding me_def
  by (auto simp: throw_def transformEntity_eq elim!: await_InrE
        split: if_splits dest: transformEntity_fst_hides_password)

lemma updateMyself_hides_password:
  assumes "updateMyself e c newData w = (Inr r, w')"
  shows "''password'' \<notin> set (reply_fields r)"
  using assms unfolding updateMyself_def
  by (auto simp: throw_def succeed_def entityChanged_def transformEntity_eq elim!: await_InrE
        dest: transformEntity_fst_hides_password)

lemma getbygitID_hides_password:
  assumes "getbygitID i w = (Inr r, w')"
  shows "''password'' \<notin> set (reply_fields r)"
proof -
  from assms obtain d where "r = Doc_reply (Some (filterFields d settings_fields))"
    unfolding getbygitID_def
    by (auto simp: throw_def succeed_def transformDocuments_def elim!: await_InrE
          split: if_splits)
  with keys_filterFields [of d settings_fields] password_not_public show ?thesis
    by auto
qed

lemma create_succeeds:
  assumes "entityValidator e entity" and "reachable w"
      and "get_field entity ''_id'' = Undefined"
      and "\<forall>d\<in>set (docs w). get_field d ''username'' \<noteq> get_field entity ''username''"
      and "\<forall>d\<in>set (docs w). get_field d ''email'' \<noteq> get_field entity ''email''"
  shows "\<exists>r. fst (create e c entity w) = Inr r"
proof -
  from assms(1) obtain p m where p: "get_field entity ''password'' = Str p"
    and m: "get_field entity ''email'' = Str m"
    unfolding entityValidator_def
    by (cases "get_field entity ''password''"; cases "get_field entity ''email''") auto
  have u: "find (\<lambda>d. get_field d ''username'' = get_field entity ''username'') (docs w) = None"
    using assms(4) by (simp add: find_None_iff)
  have em: "find (\<lambda>d. get_field d ''email'' = get_field entity ''email'') (docs w) = None"
    using assms(5) by (simp add: find_None_iff)
  show ?thesis
    using assms(1,2,3) p m u em
    by (simp add: create_def validateEntity_def await_def succeed_def throw_def findOne_def
          log_call_def insert_doc_def Let_def get_field_set_field fresh_oid_fresh
          transformEntity_def transformDocuments_def get_field_filterFields settings_fields_def
          entityChanged_def)
qed

subsection \<open>The wallet, tokens without an id, and two failure paths\<close>

lemma replace_doc_others:
  "find (\<lambda>x. get_field x ''_id'' = i) ds = Some d \<Longrightarrow>
     length (replace_doc i d' ds) = length ds \<and>
     (\<forall>j<length ds. ds ! j \<noteq> d \<longrightarrow> replace_doc i d' ds ! j = ds ! j)"
proof (induction ds)
  case Nil
  then show ?case by simp
next
  case (Cons a ds)
  show ?case
  proof (cases "get_field a ''_id'' = i")
    case True
    with Cons.prems have "a = d" by simp
    with True show ?thesis by (auto simp: nth_Cons')
  next
    case False
    with Cons show ?thesis by (auto simp: nth_Cons')
  qed
qed

lemma find_replace_doc:
  "find (\<lambda>x. get_field x ''_id'' = i) ds = Some d \<Longrightarrow> get_field d' ''_id'' = i \<Longrightarrow>
     find (\<lambda>x. get_field x ''_id'' = i) (replace_doc i d' ds) = Some d'"
  by (induction ds) (auto split: if_splits)

lemma updateById_calls:
  "calls (snd (updateById e i u w)) = calls w @ [UpdateById i u]"
  by (simp add: updateById_def log_call_def split: option.splits sum.splits)

lemma updateById_Inc:
  assumes "reachable w" and "find (\<lambda>d. get_field d ''_id'' = i) (docs w) = Some d"
  shows "updateById e i (Inc k n) w =
           (case inc_value e (get_field d k) n of
              Inr v \<Rightarrow>
                (Inr (Some (set_field k v d)),
                 log_call (UpdateById i (Inc k n))
                   (w\<lparr>docs := replace_doc i (set_field k v d) (docs w)\<rparr>))
            | Inl err \<Rightarrow> (Inl err, log_call (UpdateById i (Inc k n)) w))"
  using assms by (simp add: updateById_def split: sum.splits)

lemma find_Some_id: "find (\<lambda>d. get_field d ''_id'' = i) ds = Some d \<Longrightarrow> get_field d ''_id'' = i"
  by (auto simp: find_Some_iff)

text \<open>
  C7. The signed delta is \<open>js_negate e cost\<close>, the \<^verbatim>\<open>-payload.cost\<close> of the handler.
  \<open>deductWallet\<close> issues exactly one store call, \<open>updateById\<close> with the operator
  \<open>$inc\<close> on \<open>wallet\<close> and that delta; it reads nothing first. When the store answers and
  the account exists, the record found under the id afterwards is the old one with its
  \<open>wallet\<close> set to what \<open>$inc\<close> makes of the old wallet and the delta (their sum as doubles;
  for a numeric cost \<open>c\<close> and a wallet \<open>x\<close> with \<open>x - c\<close> an integer of magnitude at most
  \<open>2\<^sup>5\<^sup>3\<close>, exactly \<open>x - c\<close>), every other field of it keeps its value, and the
  other records stay; when \<open>$inc\<close> refuses, no record changes.
\<close>

theorem deductWallet_single_increment:
  "calls (snd (deductWallet e p w)) =
     calls w @ [UpdateById (payload_id p) (Inc ''wallet'' (js_negate e (payload_cost p)))] \<and>
   js_negate e (Number c) = Number (- c) \<and>
   (reachable w \<longrightarrow> find (\<lambda>d. get_field d ''_id'' = payload_id p) (docs w) = Some d \<longrightarrow>
      (\<forall>v. inc_value e (get_field d ''wallet'') (js_negate e (payload_cost p)) = Inr v \<longrightarrow>
         fst (deductWallet e p w) = Inr (Doc_reply (Some (set_field ''wallet'' v d))) \<and>
         docs (snd (deductWallet e p w)) =
           replace_doc (payload_id p) (set_field ''wallet'' v d) (docs w) \<and>
         find (\<lambda>d. get_field d ''_id'' = payload_id p) (docs (snd (deductWallet e p w))) =
           Some (set_field ''wallet'' v d) \<and>
         get_field (set_field ''wallet'' v d) ''wallet'' = v \<and>
         (\<forall>k. k \<noteq> ''wallet'' \<longrightarrow> get_field (set_field ''wallet'' v d) k = get_field d k) \<and>
         length (docs (snd (deductWallet e p w))) = length (docs w) \<and>
         (\<forall>j<length (docs w). docs w ! j \<noteq> d \<longrightarrow>
            docs (snd (deductWallet e p w)) ! j = docs w ! j)) \<and>
      (\<forall>err. inc_value e (get_field d ''wallet'') (js_negate e (payload_cost p)) = Inl err \<longrightarrow>
         fst (deductWallet e p w) = Inl err \<and> docs (snd (deductWallet e p w)) = docs w) \<and>
      (\<forall>x. get_field d ''wallet'' = Number x \<and> payload_cost p = Number c \<longrightarrow>
         inc_value e (get_field d ''wallet'') (js_negate e (payload_cost p)) =
           Inr (double_add e (Number x) (Number (- c))) \<and>
         (is_integer (x - c) \<and> \<bar>x - c\<bar> \<le> 2 ^ 53 \<longrightarrow>
            get_field (the (find (\<lambda>d. get_field d ''_id'' = payload_id p)
                              (docs (snd (deductWallet e p w))))) ''wallet'' = Number (x - c))))"
proof -
  let ?n = "js_negate e (payload_cost p)"
  let ?i = "payload_id p"
  have run: "deductWallet e p w =
      (map_sum id Doc_reply (fst (updateById e ?i (Inc ''wallet'' ?n) w)),
       snd (updateById e ?i (Inc ''wallet'' ?n) w))"
    by (simp add: deductWallet_def async_return_def try_sync_def split: prod.splits)
  have c: "calls (snd (deductWallet e p w)) = calls w @ [UpdateById ?i (Inc ''wallet'' ?n)]"
    by (simp add: run updateById_calls)
  have n: "js_negate e (Number c) = Number (- c)"
    by (simp add: js_negate_def)
  have ok: "fst (deductWallet e p w) = Inr (Doc_reply (Some (set_field ''wallet'' v d))) \<and>
         docs (snd (deductWallet e p w)) = replace_doc ?i (set_field ''wallet'' v d) (docs w) \<and>
         find (\<lambda>d. get_field d ''_id'' = ?i) (docs (snd (deductWallet e p w))) =
           Some (set_field ''wallet'' v d) \<and>
         get_field (set_field ''wallet'' v d) ''wallet'' = v \<and>
         (\<forall>k. k \<noteq> ''wallet'' \<longrightarrow> get_field (set_field ''wallet'' v d) k = get_field d k) \<and>
         length (docs (snd (deductWallet e p w))) = length (docs w) \<and>
         (\<forall>j<length (docs w). docs w ! j \<noteq> d \<longrightarrow>
            docs (snd (deductWallet e p w)) ! j = docs w ! j)"
    if r: "reachable w" and f: "find (\<lambda>d. get_field d ''_id'' = ?i) (docs w) = Some d"
      and v: "inc_value e (get_field d ''wallet'') ?n = Inr v" for v
  proof -
    have i: "get_field (set_field ''wallet'' v d) ''_id'' = ?i"
      using find_Some_id [OF f] by (simp add: get_field_set_field)
    from updateById_Inc [OF r f, of e "''wallet''" ?n] v
    have "deductWallet e p w =
            (Inr (Doc_reply (Some (set_field ''wallet'' v d))),
             log_call (UpdateById ?i (Inc ''wallet'' ?n))
               (w\<lparr>docs := replace_doc ?i (set_field ''wallet'' v d) (docs w)\<rparr>))"
      by (simp add: run)
    then show ?thesis
      using replace_doc_others [OF f, of "set_field ''wallet'' v d"] find_replace_doc [OF f i]
      by (simp add: log_call_def get_field_set_field)
  qed
  have bad: "fst (deductWallet e p w) = Inl err \<and> docs (snd (deductWallet e p w)) = docs w"
    if r: "reachable w" and f: "find (\<lambda>d. get_field d ''_id'' = ?i) (docs w) = Some d"
      and v: "inc_value e (get_field d ''wallet'') ?n = Inl err" for err
    using updateById_Inc [OF r f, of e "''wallet''" ?n] v by (simp add: run log_call_def)
  have num: "inc_value e (get_field d ''wallet'') ?n = Inr (double_add e (Number x) (Number (- c)))"
    if "get_field d ''wallet'' = Number x" "payload_cost p = Number c" for x
    using that by (simp add: inc_value_def js_negate_def)
  have exact: "get_field (the (find (\<lambda>d. get_field d ''_id'' = ?i)
                              (docs (snd (deductWallet e p w))))) ''wallet'' = Number (x - c)"
    if r: "reachable w" and f: "find (\<lambda>d. get_field d ''_id'' = ?i) (docs w) = Some d"
      and "get_field d ''wallet'' = Number x" "payload_cost p = Number c"
      and "is_integer (x - c)" "\<bar>x - c\<bar> \<le> 2 ^ 53" for x
  proof -
    from that have "double_add e (Number x) (Number (- c)) = Number (x - c)" by simp
    with num [OF that(3,4)]
    have v: "inc_value e (get_field d ''wallet'') ?n = Inr (Number (x - c))" by simp
    from ok [OF r f v] have
      "find (\<lambda>d. get_field d ''_id'' = ?i) (docs (snd (deductWallet e p w))) =
         Some (set_field ''wallet'' (Number (x - c)) d)"
      and "get_field (set_field ''wallet'' (Number (x - c)) d) ''wallet'' = Number (x - c)"
      by blast+
    then show ?thesis by (simp only: option.sel)
  qed
  from c n ok bad num exact show ?thesis by blast
qed

theorem deductWallet_single_increment_witness:
  "reachable example_world \<and>
   find (\<lambda>d. get_field d ''_id'' = Oid 1) (docs example_world) = Some alice \<and>
   get_field alice ''wallet'' = Number 100 \<and>
   is_integer (100 - 30) \<and> \<bar>100 - 30 :: rat\<bar> \<le> 2 ^ 53 \<and>
   inc_value example_env (Number 100) (Number (- 30)) = Inr (Number 70) \<and>
   fst (deductWallet example_env \<lparr>payload_id = Oid 1, payload_cost = Number 30\<rparr> example_world) =
     Inr (Doc_reply (Some (set_field ''wallet'' (Number 70) alice))) \<and>
   find (\<lambda>d. get_field d ''_id'' = Oid 1)
     (docs (snd (deductWallet example_env \<lparr>payload_id = Oid 1, payload_cost = Number 30\<rparr>
                   example_world))) = Some (set_field ''wallet'' (Number 70) alice) \<and>
   get_field (the (find (\<lambda>d. get_field d ''_id'' = Oid 1)
     (docs (snd (deductWallet example_env \<lparr>payload_id = Oid 1, payload_cost = Number 30\<rparr>
                   example_world))))) ''wallet'' = Number 70 \<and>
   calls (snd (deductWallet example_env \<lparr>payload_id = Oid 1, payload_cost = Number 30\<rparr>
                 example_world)) =
     [UpdateById (Oid 1) (Inc ''wallet'' (Number (- 30)))]"
proof -
  let ?p = "\<lparr>payload_id = Oid 1, payload_cost = Number 30\<rparr>"
  have r: "reachable example_world" by code_simp
  have f: "find (\<lambda>d. get_field d ''_id'' = payload_id ?p) (docs example_world) = Some alice"
    by code_simp
  have g: "get_field alice ''wallet'' = Number 100" by code_simp
  have i: "is_integer (100 - 30)" by code_simp
  have l: "\<bar>100 - 30 :: rat\<bar> \<le> 2 ^ 53" by simp
  have v: "inc_value example_env (Number 100) (Number (- 30)) = Inr (Number 70)" by code_simp
  have c: "calls example_world = []" by (simp add: example_world_def)
  have m: "(100 - 30 :: rat) = 70" by simp
  note t = deductWallet_single_increment [of example_env ?p example_world 30 alice]
  from t have n: "js_negate example_env (Number 30) = Number (- 30)" by blast
  from t c n have a: "calls (snd (deductWallet example_env ?p example_world)) =
      [UpdateById (Oid 1) (Inc ''wallet'' (Number (- 30)))]"
    by simp
  from t r f obtain
    b: "\<forall>v. inc_value example_env (get_field alice ''wallet'')
                (js_negate example_env (payload_cost ?p)) = Inr v \<longrightarrow>
         fst (deductWallet example_env ?p example_world) =
           Inr (Doc_reply (Some (set_field ''wallet'' v alice))) \<and>
         find (\<lambda>d. get_field d ''_id'' = payload_id ?p)
           (docs (snd (deductWallet example_env ?p example_world))) =
           Some (set_field ''wallet'' v alice)"
    and x: "\<forall>x. get_field alice ''wallet'' = Number x \<and> payload_cost ?p = Number 30 \<longrightarrow>
         (is_integer (x - 30) \<and> \<bar>x - 30\<bar> \<le> 2 ^ 53 \<longrightarrow>
            get_field (the (find (\<lambda>d. get_field d ''_id'' = payload_id ?p)
                              (docs (snd (deductWallet example_env ?p example_world)))))
              ''wallet'' = Number (x - 30))"
    by blast
  from b g n v have b': "fst (deductWallet example_env ?p example_world) =
           Inr (Doc_reply (Some (set_field ''wallet'' (Number 70) alice))) \<and>
         find (\<lambda>d. get_field d ''_id'' = payload_id ?p)
           (docs (snd (deductWallet example_env ?p example_world))) =
           Some (set_field ''wallet'' (Number 70) alice)"
    by simp
  from x g i l m have x': "get_field (the (find (\<lambda>d. get_field d ''_id'' = payload_id ?p)
                              (docs (snd (deductWallet example_env ?p example_world)))))
              ''wallet'' = Number 70"
    by simp
  from r f g i l v a b' x' show ?thesis by simp
qed

text \<open>
  C10. A token that passes verification and whose payload has no \<open>id\<close>: the handler
  resolves to nothing (\<^verbatim>\<open>undefined\<close>), neither an account nor an error, and leaves the
  world as it was; the action makes no adapter call and changes no document, and on a cache
  miss it resolves to nothing as well.
\<close>

theorem resolveToken_without_id:
  assumes "jwt_verify token (JWT_SECRET e) (clock c) = Inr decoded"
      and "map_of decoded ''id'' = None"
  shows "resolveToken_handler e c token w = (Inr Nothing, w) \<and>
         calls (snd (resolveToken e c token w)) = calls w \<and>
         docs (snd (resolveToken e c token w)) = docs w \<and>
         (cache_get w token (clock c) = None \<longrightarrow> fst (resolveToken e c token w) = Inr Nothing)"
proof -
  from assms(2) have "get_field decoded ''id'' = Undefined"
    by (simp add: get_field_def)
  with assms(1) have h: "resolveToken_handler e c token w = (Inr Nothing, w)"
    by (simp add: resolveToken_handler_def await_def succeed_def)
  then show ?thesis
    by (simp add: resolveToken_def cache_set_def split: option.splits)
qed

theorem resolveToken_without_id_witness:
  "jwt_verify idless_token (JWT_SECRET example_env) (clock (anonymous 1000)) =
     Inr [(''username'', Str ''alice''), (''exp'', Number 5000)] \<and>
   map_of [(''username'', Str ''alice''), (''exp'', Number 5000)] ''id'' = None \<and>
   cache_get example_world idless_token (clock (anonymous 1000)) = None \<and>
   resolveToken_handler example_env (anonymous 1000) idless_token example_world =
     (Inr Nothing, example_world) \<and>
   fst (resolveToken example_env (anonymous 1000) idless_token example_world) = Inr Nothing \<and>
   calls (snd (resolveToken example_env (anonymous 1000) idless_token example_world)) = []"
proof -
  have v: "jwt_verify idless_token (JWT_SECRET example_env) (clock (anonymous 1000)) =
     Inr [(''username'', Str ''alice''), (''exp'', Number 5000)]"
    by code_simp
  have m: "map_of [(''username'', Str ''alice''), (''exp'', Number 5000 :: val)] ''id'' = None"
    by simp
  have g: "cache_get example_world idless_token (clock (anonymous 1000)) = None"
    by code_simp
  have cs: "calls example_world = []"
    by (simp add: example_world_def)
  from resolveToken_without_id [OF v m, of example_world] g cs v m show ?thesis
    by simp
qed

text \<open>
  Whatever \<open>updateById\<close> settles to, \<open>deductWallet\<close> settles to the same: its
  \<^verbatim>\<open>catch\<close> clause adds nothing to a rejection.
\<close>

lemma deductWallet_passes_outcome:
  "fst (deductWallet e p w) =
     map_sum id Doc_reply
       (fst (updateById e (payload_id p) (Inc ''wallet'' (js_negate e (payload_cost p))) w))"
  by (simp add: deductWallet_def async_return_def try_sync_def split: prod.splits)

text \<open>
  C6. With the store out of reach, \<open>updateById\<close> rejects; \<open>deductWallet\<close> returns that
  promise from inside its \<^verbatim>\<open>try\<close> block without awaiting it, so the \<^verbatim>\<open>catch\<close>
  clause does not run: the caller gets the store's error, not \<open>internal_error\<close>.
\<close>

theorem deductWallet_store_failure:
  "fst (deductWallet example_env \<lparr>payload_id = Oid 1, payload_cost = Number 30\<rparr>
          (example_world\<lparr>reachable := False\<rparr>)) = Inl (StoreError ''unreachable'') \<and>
   Inl (StoreError ''unreachable'') \<noteq> (Inl internal_error :: error + reply)"
  by code_simp

text \<open>
  C9. An unknown email and a wrong password fail with the same code and the same details but
  with different messages.
\<close>

theorem login_messages_differ:
  "fst (login example_env (anonymous 1000) ''nobody@example.org'' ''secret1'' example_world) =
     Inl (MoleculerClientError ''Email or password is invalid!'' 422 []
            [(''email'', ''is not found'')]) \<and>
   fst (login example_env (anonymous 1000) ''alice@example.org'' ''wrong'' example_world) =
     Inl (MoleculerClientError ''Wrong password!'' 422 [] [(''email'', ''is not found'')])"
  by code_simp

subsection \<open>The token of a new account\<close>

lemma insert_doc_success:
  assumes "insert_doc ent w0 = (Inr doc, w1)"
  shows "reachable w0 \<and> reachable w1 \<and> docs w1 = docs w0 @ [doc] \<and>
         (\<forall>k. k \<noteq> ''_id'' \<longrightarrow> get_field doc k = get_field ent k)"
  using assms
  by (auto simp: insert_doc_def Let_def log_call_def get_field_set_field split: if_splits)

lemma transformEntity_fst_indep:
  "fst (transformEntity e now od wt tok w) = fst (transformEntity e now od wt tok w2)"
proof (cases od)
  case None
  then show ?thesis by (simp add: transformEntity_def succeed_def)
next
  case (Some u)
  then show ?thesis
    by (cases "get_field u ''email''")
       (simp_all add: transformEntity_def await_def succeed_def throw_def)
qed

lemma create_new_document:
  assumes "create e c entity w = (Inr r, w')"
  shows "reachable w \<and> reachable w' \<and> docs w' = docs w @ [last (docs w')] \<and>
         get_field (last (docs w')) ''username'' = get_field entity ''username'' \<and>
         get_field (last (docs w')) ''email'' = get_field entity ''email'' \<and>
         fst (transformEntity e (clock c) (transformDocuments (Some (last (docs w')))) True
                (meta_token c) w) = Inr r"
proof -
  from create_success [OF assms] obtain p doc w0 w1 where
    ins: "insert_doc (set_field ''createdAt'' (Date (clock c))
            (set_field ''password'' (Str (bcrypt_hashSync e p)) entity)) w0 = (Inr doc, w1)"
    and tr: "fst (transformEntity e (clock c) (transformDocuments (Some doc)) True
                (meta_token c) w1) = Inr r"
    and w0: "docs w0 = docs w" "reachable w0 = reachable w"
    and w': "w' = w1\<lparr>cache := []\<rparr>"
    by blast
  from insert_doc_success [OF ins] w0 w' have
    "reachable w" "reachable w'" "docs w' = docs w @ [doc]"
    "get_field doc ''username'' = get_field entity ''username''"
    "get_field doc ''email'' = get_field entity ''email''"
    by (simp_all add: get_field_set_field)
  moreover have "fst (transformEntity e (clock c) (transformDocuments (Some doc)) True
                (meta_token c) w) = Inr r"
    using tr transformEntity_fst_indep [of e "clock c" _ True "meta_token c" w w1] by simp
  ultimately show ?thesis by simp
qed

text \<open>
  C8, as the code has it. A successful \<open>create\<close> appends one document to the collection
  and returns its public view with a token: the token the caller supplied in
  \<^verbatim>\<open>ctx.meta.token\<close> when that is non-empty, and only otherwise a token signed during the
  call for the new account: its id, its username, and as expiry the second of the instant 60
  calendar days from now in the server's local time (\<open>setDate_plus\<close>).
\<close>

theorem create_token:
  assumes "create e c entity w = (Inr r, w')"
  shows "r = User_reply (Some (user_of r)) \<and>
         docs w' = docs w @ [last (docs w')] \<and>
         get_field (last (docs w')) ''username'' = get_field entity ''username'' \<and>
         get_field (user_of r) ''_id'' = get_field (last (docs w')) ''_id'' \<and>
         get_field (user_of r) ''token'' =
           (if truthy (meta_token c) then meta_token c
            else jwt_sign
                   [(''id'', get_field (last (docs w')) ''_id''),
                    (''username'', get_field entity ''username''),
                    (''exp'', Number (of_int (setDate_plus e (clock c) 60 div 1000)))]
                   (JWT_SECRET e) (clock c))"
proof -
  let ?doc = "last (docs w')"
  from create_new_document [OF assms] have
    d: "docs w' = docs w @ [?doc]"
    and u: "get_field ?doc ''username'' = get_field entity ''username''"
    and t: "fst (transformEntity e (clock c) (transformDocuments (Some ?doc)) True
                (meta_token c) w) = Inr r"
    by simp_all
  have i: "''_id'' \<in> set settings_fields" "''username'' \<in> set settings_fields"
    by (simp_all add: settings_fields_def)
  from t u i have
    "r = User_reply (Some (user_of r)) \<and>
     get_field (user_of r) ''_id'' = get_field ?doc ''_id'' \<and>
     get_field (user_of r) ''token'' =
       (if truthy (meta_token c) then meta_token c
        else jwt_sign
               [(''id'', get_field ?doc ''_id''),
                (''username'', get_field entity ''username''),
                (''exp'', Number (of_int (setDate_plus e (clock c) 60 div 1000)))]
               (JWT_SECRET e) (clock c))"
    by (auto simp: transformEntity_def transformDocuments_def await_def succeed_def throw_def
          generateJWT_def get_field_set_field get_field_filterFields
          split: if_splits val.splits)
  with d u show ?thesis by simp
qed

theorem create_token_witness:
  "create example_env (anonymous 1000) bob_candidate example_world =
     (Inr (projr (fst (create example_env (anonymous 1000) bob_candidate example_world))),
      snd (create example_env (anonymous 1000) bob_candidate example_world)) \<and>
   \<not> truthy (meta_token (anonymous 1000)) \<and>
   get_field (user_of (projr (fst (create example_env (anonymous 1000) bob_candidate example_world))))
     ''token'' =
     Jwt [(''id'', Oid 2), (''username'', Str ''bob''), (''exp'', Number 5184001),
          (''iat'', Number 1)] ''jwt-conduit-secret''"
proof -
  have s: "create example_env (anonymous 1000) bob_candidate example_world =
     (Inr (projr (fst (create example_env (anonymous 1000) bob_candidate example_world))),
      snd (create example_env (anonymous 1000) bob_candidate example_world))"
    by code_simp
  have m: "\<not> truthy (meta_token (anonymous 1000))"
    by code_simp
  have l: "get_field (last (docs (snd (create example_env (anonymous 1000) bob_candidate example_world))))
             ''_id'' = Oid 2"
    by code_simp
  have j: "jwt_sign [(''id'', Oid 2), (''username'', get_field bob_candidate ''username''),
                     (''exp'', Number (of_int
                        (setDate_plus example_env (clock (anonymous 1000)) 60 div 1000)))]
             (JWT_SECRET example_env) (clock (anonymous 1000)) =
           Jwt [(''id'', Oid 2), (''username'', Str ''bob''), (''exp'', Number 5184001),
                (''iat'', Number 1)] ''jwt-conduit-secret''"
    by code_simp
  from create_token [OF s] m l j s show ?thesis
    by simp
qed

theorem create_reuses_token_counterexample:
  "fst (create example_env ((anonymous 1000)\<lparr>meta_token := Str ''abc''\<rparr>) bob_candidate
          example_world) =
     Inr (User_reply (Some
       [(''_id'', Oid 2), (''username'', Str ''bob''), (''git_id'', Str ''77''),
        (''email'', Str ''bob@example.org''),
        (''avatar'', Str ''https://www.gravatar.com/avatar/gro.elpmaxe@bob?d=robohash''),
        (''token'', Str ''abc'')]))"
  by code_simp

subsection \<open>Conflicts at registration\<close>

lemma find_exists: "\<exists>x\<in>set xs. P x \<Longrightarrow> find P xs \<noteq> None"
  by (auto simp: find_None_iff)

lemma valid_entity_username: "entityValidator e entity \<Longrightarrow> truthy (get_field entity ''username'')"
  by (auto simp: entityValidator_def intro: string_min_truthy)

text \<open>
  C4, as the code has it. \<open>create\<close> validates the candidate, then looks the username up, and
  only then the email. For a valid candidate and a store that answers: a username that an
  account has gives \<open>username_exists\<close>; an email that an account has gives
  \<open>email_exists\<close> when the username is free and the email is not the empty string. Either
  way the collection is as before and no insert was issued; and a second \<open>create\<close> with
  the username of a first, successful one fails with \<open>username_exists\<close>.
\<close>

theorem create_conflict:
  assumes "entityValidator e entity" and "reachable w"
  shows "((\<exists>d\<in>set (docs w). get_field d ''username'' = get_field entity ''username'') \<longrightarrow>
            create e c entity w =
              (Inl username_exists,
               log_call (FindOne ''username'' (get_field entity ''username'')) w) \<and>
            docs (snd (create e c entity w)) = docs w) \<and>
         ((\<forall>d\<in>set (docs w). get_field d ''username'' \<noteq> get_field entity ''username'') \<and>
          truthy (get_field entity ''email'') \<and>
          (\<exists>d\<in>set (docs w). get_field d ''email'' = get_field entity ''email'') \<longrightarrow>
            create e c entity w =
              (Inl email_exists,
               log_call (FindOne ''email'' (get_field entity ''email''))
                 (log_call (FindOne ''username'' (get_field entity ''username'')) w)) \<and>
            docs (snd (create e c entity w)) = docs w) \<and>
         (\<forall>c0 first r w0. create e c0 first w0 = (Inr r, w) \<and>
            get_field first ''username'' = get_field entity ''username'' \<longrightarrow>
            fst (create e c entity w) = Inl username_exists \<and>
            docs (snd (create e c entity w)) = docs w)"
proof -
  have tu: "truthy (get_field entity ''username'')"
    using assms(1) by (rule valid_entity_username)
  have a: "create e c entity w =
              (Inl username_exists,
               log_call (FindOne ''username'' (get_field entity ''username'')) w)"
    if "\<exists>d\<in>set (docs w). get_field d ''username'' = get_field entity ''username''"
  proof -
    from that have "find (\<lambda>d. get_field d ''username'' = get_field entity ''username'') (docs w)
        \<noteq> None"
      by (rule find_exists)
    with assms tu show ?thesis
      by (auto simp: create_def validateEntity_def await_def succeed_def throw_def findOne_def)
  qed
  have b: "create e c entity w =
              (Inl email_exists,
               log_call (FindOne ''email'' (get_field entity ''email''))
                 (log_call (FindOne ''username'' (get_field entity ''username'')) w))"
    if "\<forall>d\<in>set (docs w). get_field d ''username'' \<noteq> get_field entity ''username''"
       "truthy (get_field entity ''email'')"
       "\<exists>d\<in>set (docs w). get_field d ''email'' = get_field entity ''email''"
  proof -
    from that(1) have n:
      "find (\<lambda>d. get_field d ''username'' = get_field entity ''username'') (docs w) = None"
      by (simp add: find_None_iff)
    from that(3) have "find (\<lambda>d. get_field d ''email'' = get_field entity ''email'') (docs w)
        \<noteq> None"
      by (rule find_exists)
    with assms tu n that(2) show ?thesis
      by (auto simp: create_def validateEntity_def await_def succeed_def throw_def findOne_def
            log_call_def)
  qed
  have c: "\<exists>d\<in>set (docs w). get_field d ''username'' = get_field entity ''username''"
    if "create e c0 first w0 = (Inr r, w)"
       "get_field first ''username'' = get_field entity ''username''" for c0 first r w0
  proof -
    from create_new_document [OF that(1)] that(2) have
      "docs w = docs w0 @ [last (docs w)]"
      "get_field (last (docs w)) ''username'' = get_field entity ''username''"
      by simp_all
    then show ?thesis
      by (metis in_set_conv_decomp)
  qed
  have a': "docs (snd (create e c entity w)) = docs w"
    if "\<exists>d\<in>set (docs w). get_field d ''username'' = get_field entity ''username''"
    using a [OF that] by (simp add: log_call_def)
  have b': "docs (snd (create e c entity w)) = docs w"
    if "\<forall>d\<in>set (docs w). get_field d ''username'' \<noteq> get_field entity ''username''"
       "truthy (get_field entity ''email'')"
       "\<exists>d\<in>set (docs w). get_field d ''email'' = get_field entity ''email''"
    using b [OF that] by (simp add: log_call_def)
  have c': "fst (create e c entity w) = Inl username_exists \<and>
            docs (snd (create e c entity w)) = docs w"
    if "create e c0 first w0 = (Inr r, w)"
       "get_field first ''username'' = get_field entity ''username''" for c0 first r w0
    using a [OF c [OF that]] a' [OF c [OF that]] by simp
  from a a' b b' c' show ?thesis
    by blast
qed

theorem create_conflict_witness:
  "entityValidator example_env alice_again \<and> reachable example_world \<and>
   (\<exists>d\<in>set (docs example_world). get_field d ''username'' = get_field alice_again ''username'') \<and>
   fst (create example_env (anonymous 1000) alice_again example_world) = Inl username_exists \<and>
   entityValidator example_env carol_candidate \<and>
   list_all (\<lambda>d. get_field d ''username'' \<noteq> get_field carol_candidate ''username'')
     (docs example_world) \<and>
   truthy (get_field carol_candidate ''email'') \<and>
   (\<exists>d\<in>set (docs example_world). get_field d ''email'' = get_field carol_candidate ''email'') \<and>
   fst (create example_env (anonymous 1000) carol_candidate example_world) = Inl email_exists \<and>
   docs (snd (create example_env (anonymous 1000) carol_candidate example_world)) =
     docs example_world \<and>
   \<not> isl (fst (create example_env (anonymous 1000) bob_candidate example_world)) \<and>
   get_field bob_candidate ''username'' = get_field bob_again ''username'' \<and>
   fst (create example_env (anonymous 2000) bob_again
          (snd (create example_env (anonymous 1000) bob_candidate example_world))) =
     Inl username_exists"
proof -
  let ?w1 = "snd (create example_env (anonymous 1000) bob_candidate example_world)"
  have v1: "entityValidator example_env alice_again" by code_simp
  have r: "reachable example_world" by code_simp
  have u1: "\<exists>d\<in>set (docs example_world).
              get_field d ''username'' = get_field alice_again ''username''"
    by code_simp
  have v2: "entityValidator example_env carol_candidate" by code_simp
  have u2: "\<forall>d\<in>set (docs example_world).
              get_field d ''username'' \<noteq> get_field carol_candidate ''username''"
    by code_simp
  have t2: "truthy (get_field carol_candidate ''email'')" by code_simp
  have e2: "\<exists>d\<in>set (docs example_world).
              get_field d ''email'' = get_field carol_candidate ''email''"
    by code_simp
  have v3: "entityValidator example_env bob_again" by code_simp
  have r3: "reachable ?w1" by code_simp
  have s3: "create example_env (anonymous 1000) bob_candidate example_world =
              (Inr (projr (fst (create example_env (anonymous 1000) bob_candidate example_world))),
               ?w1)"
    by code_simp
  have i3: "\<not> isl (fst (create example_env (anonymous 1000) bob_candidate example_world))"
    by code_simp
  have n3: "get_field bob_candidate ''username'' = get_field bob_again ''username''"
    by code_simp
  from create_conflict [OF v1 r, of "anonymous 1000"] u1
  have c1: "fst (create example_env (anonymous 1000) alice_again example_world) =
              Inl username_exists"
    by (auto simp: log_call_def)
  from create_conflict [OF v2 r, of "anonymous 1000"] u2 t2 e2
  have c2: "fst (create example_env (anonymous 1000) carol_candidate example_world) =
              Inl email_exists \<and>
            docs (snd (create example_env (anonymous 1000) carol_candidate example_world)) =
              docs example_world"
    by (auto simp: log_call_def)
  from create_conflict [OF v3 r3, of "anonymous 2000"] s3 n3
  have c3: "fst (create example_env (anonymous 2000) bob_again ?w1) = Inl username_exists"
    by blast
  from u2 have
    "list_all (\<lambda>d. get_field d ''username'' \<noteq> get_field carol_candidate ''username'')
       (docs example_world)"
    by (simp add: list_all_iff)
  with v1 r u1 c1 v2 t2 e2 c2 i3 n3 c3 show ?thesis
    by blast
qed

theorem create_both_taken_counterexample:
  "get_field alice_again ''email'' = get_field alice ''email'' \<and>
   fst (create example_env (anonymous 1000) alice_again example_world) = Inl username_exists \<and>
   username_exists \<noteq> email_exists"
  by code_simp

subsection \<open>Registration through the provider\<close>

text \<open>
  C5, as the code has it. The whole body of \<open>registerwithtoken\<close>, the delegated
  \<open>create\<close> included, is inside one \<^verbatim>\<open>try\<close>: whatever error \<open>create\<close> raises after
  the provider has answered, a uniqueness conflict too, the caller gets \<open>bad_details\<close>,
  which is also what a failed fetch gives, with the world untouched; only what \<open>create\<close>
  returns comes through as it is.
\<close>

theorem registerwithtoken_masks_errors:
  "(\<forall>data err w'.
      github_user e (param_access_token ps) (param_token_type ps) (param_scope ps) = Inr data \<and>
      create e c (oauth_candidate e ps data) w = (Inl err, w') \<longrightarrow>
        registerwithtoken e c ps w = (Inl bad_details, w')) \<and>
   (\<forall>err.
      github_user e (param_access_token ps) (param_token_type ps) (param_scope ps) = Inl err \<longrightarrow>
        registerwithtoken e c ps w = (Inl bad_details, w)) \<and>
   (\<forall>data r w'.
      github_user e (param_access_token ps) (param_token_type ps) (param_scope ps) = Inr data \<and>
      create e c (oauth_candidate e ps data) w = (Inr r, w') \<longrightarrow>
        registerwithtoken e c ps w = (Inr r, w'))"
  by (simp add: registerwithtoken_def try_catch_def await_def throw_def)

theorem registerwithtoken_masks_errors_witness:
  "github_user example_env (param_access_token oauth_params) (param_token_type oauth_params)
     (param_scope oauth_params) =
     Inr [(''id'', Number 42), (''name'', Str ''alice''),
          (''avatar_url'', Str ''https://avatars.example/42'')] \<and>
   fst (create example_env (anonymous 1000)
          (oauth_candidate example_env oauth_params
             [(''id'', Number 42), (''name'', Str ''alice''),
              (''avatar_url'', Str ''https://avatars.example/42'')]) example_world) =
     Inl username_exists \<and>
   fst (registerwithtoken example_env (anonymous 1000) oauth_params example_world) =
     Inl bad_details \<and>
   github_user example_env (param_access_token (oauth_params\<lparr>param_access_token := Str ''gho_revoked''\<rparr>))
     (param_token_type oauth_params) (param_scope oauth_params) =
     Inl (HttpError ''Request failed with status code 401'') \<and>
   registerwithtoken example_env (anonymous 1000)
     (oauth_params\<lparr>param_access_token := Str ''gho_revoked''\<rparr>) example_world =
     (Inl bad_details, example_world)"
proof -
  let ?data = "[(''id'', Number 42), (''name'', Str ''alice''),
          (''avatar_url'', Str ''https://avatars.example/42'')]"
  let ?run = "create example_env (anonymous 1000) (oauth_candidate example_env oauth_params ?data)
                example_world"
  let ?ps = "oauth_params\<lparr>param_access_token := Str ''gho_revoked''\<rparr>"
  have g: "github_user example_env (param_access_token oauth_params)
             (param_token_type oauth_params) (param_scope oauth_params) = Inr ?data"
    by code_simp
  have f: "fst ?run = Inl username_exists"
    by code_simp
  then have c: "?run = (Inl username_exists, snd ?run)"
    by (rule pair_fst)
  have h: "github_user example_env (param_access_token ?ps) (param_token_type ?ps)
             (param_scope ?ps) = Inl (HttpError ''Request failed with status code 401'')"
    by code_simp
  have h': "github_user example_env (param_access_token ?ps) (param_token_type oauth_params)
             (param_scope oauth_params) = Inl (HttpError ''Request failed with status code 401'')"
    by code_simp
  from registerwithtoken_masks_errors [of example_env oauth_params "anonymous 1000" example_world]
    g c
  have a: "registerwithtoken example_env (anonymous 1000) oauth_params example_world =
             (Inl bad_details, snd ?run)"
    by blast
  from registerwithtoken_masks_errors [of example_env ?ps "anonymous 1000" example_world] h
  have b: "registerwithtoken example_env (anonymous 1000) ?ps example_world =
             (Inl bad_details, example_world)"
    by blast
  from g f a h' b show ?thesis by simp
qed

theorem registerwithtoken_conflict_counterexample:
  "github_user example_env (param_access_token oauth_params) (param_token_type oauth_params)
     (param_scope oauth_params) =
     Inr [(''id'', Number 42), (''name'', Str ''alice''),
          (''avatar_url'', Str ''https://avatars.example/42'')] \<and>
   fst (create example_env (anonymous 1000)
          (oauth_candidate example_env oauth_params
             [(''id'', Number 42), (''name'', Str ''alice''),
              (''avatar_url'', Str ''https://avatars.example/42'')]) example_world) =
     Inl username_exists \<and>
   fst (registerwithtoken example_env (anonymous 1000) oauth_params example_world) =
     Inl bad_details \<and>
   bad_details \<noteq> username_exists"
  by code_simp

subsection \<open>Resolving tokens\<close>

lemma cache_get_cache_set:
  "cache_get (cache_set key content expire w) key t =
     (if expire < t \<or> content = Doc_reply None \<or> content = Nothing then None else Some content)"
  by (simp add: cache_get_def cache_set_def map_of_set_field)

text \<open>
  C2, as the code has it. For a token signed with the service's secret whose \<open>exp\<close> is
  not after the clock: when the cacher has no live entry for the token string,
  \<open>resolveToken\<close> fails with \<open>TokenExpiredError\<close> and changes nothing; when it has one,
  the cached content is the answer and the token is not verified.
\<close>

theorem resolveToken_expired:
  assumes "get_field p ''exp'' = Number x" and "x \<le> of_int (clock c div 1000)"
  shows "(cache_get w (Jwt p (JWT_SECRET e)) (clock c) = None \<longrightarrow>
            resolveToken e c (Jwt p (JWT_SECRET e)) w = (Inl TokenExpiredError, w)) \<and>
         (\<forall>content. cache_get w (Jwt p (JWT_SECRET e)) (clock c) = Some content \<longrightarrow>
            resolveToken e c (Jwt p (JWT_SECRET e)) w = (Inr content, w))"
  using assms
  by (simp add: resolveToken_def resolveToken_handler_def jwt_verify_def await_def)

theorem resolveToken_expired_witness:
  "short_token = Jwt [(''id'', Oid 1), (''username'', Str ''alice''), (''exp'', Number 5),
                      (''iat'', Number 0)] (JWT_SECRET example_env) \<and>
   (5::rat) \<le> of_int (clock (anonymous 10000) div 1000) \<and>
   cache_get example_world short_token (clock (anonymous 10000)) = None \<and>
   resolveToken example_env (anonymous 10000) short_token example_world =
     (Inl TokenExpiredError, example_world) \<and>
   cache_get (snd (resolveToken example_env (anonymous 1000) short_token example_world))
     short_token (clock (anonymous 10000)) = Some (Doc_reply (Some alice)) \<and>
   fst (resolveToken example_env (anonymous 10000) short_token
          (snd (resolveToken example_env (anonymous 1000) short_token example_world))) =
     Inr (Doc_reply (Some alice))"
proof -
  let ?p = "[(''id'', Oid 1), (''username'', Str ''alice''), (''exp'', Number 5),
             (''iat'', Number 0)]"
  let ?w1 = "snd (resolveToken example_env (anonymous 1000) short_token example_world)"
  have t: "short_token = Jwt ?p (JWT_SECRET example_env)" by code_simp
  have x: "get_field ?p ''exp'' = Number 5" by code_simp
  have l: "(5::rat) \<le> of_int (clock (anonymous 10000) div 1000)" by code_simp
  have m: "cache_get example_world short_token (clock (anonymous 10000)) = None"
    by code_simp
  have h: "cache_get ?w1 short_token (clock (anonymous 10000)) = Some (Doc_reply (Some alice))"
    by code_simp
  from resolveToken_expired [OF x l, of example_world example_env] t m
  have a: "resolveToken example_env (anonymous 10000) short_token example_world =
     (Inl TokenExpiredError, example_world)"
    by simp
  from resolveToken_expired [OF x l, of ?w1 example_env] t h
  have b: "fst (resolveToken example_env (anonymous 10000) short_token ?w1) =
     Inr (Doc_reply (Some alice))"
    by simp
  from t l m a h b show ?thesis by blast
qed

text \<open>
  A token the service itself minted for alice: resolved one second before it expires, and
  again two seconds later.
\<close>

theorem resolveToken_expired_cached_counterexample:
  "jwt_verify (generateJWT example_env 1000 alice) (JWT_SECRET example_env)
     (clock (anonymous 5184002000)) = Inl TokenExpiredError \<and>
   fst (resolveToken example_env (anonymous 5184002000) (generateJWT example_env 1000 alice)
          (snd (resolveToken example_env (anonymous 5184000000)
                  (generateJWT example_env 1000 alice) example_world))) =
     Inr (Doc_reply (Some alice))"
  by code_simp

text \<open>
  C3, as the code has it. For a token that passes verification and carries a non-empty \<open>id\<close>,
  with the store answering and no live cache entry: \<open>resolveToken\<close> resolves to what
  \<open>getById\<close> finds. An account with that id is returned, and the cacher then answers with
  it for the token until exactly one hour (3600000 ms) after the call and not any longer;
  when there is none the result is null, no error is raised, and the cacher has no answer for
  the token afterwards.
\<close>

theorem resolveToken_lookup:
  assumes "jwt_verify token (JWT_SECRET e) (clock c) = Inr decoded"
      and "truthy (get_field decoded ''id'')"
      and "reachable w"
      and "cache_get w token (clock c) = None"
  shows "resolveToken e c token w =
           (Inr (Doc_reply (find (\<lambda>d. get_field d ''_id'' = get_field decoded ''id'') (docs w))),
            cache_set token
              (Doc_reply (find (\<lambda>d. get_field d ''_id'' = get_field decoded ''id'') (docs w)))
              (clock c + 60 * 60 * 1000)
              (log_call (FindById (get_field decoded ''id'')) w)) \<and>
         (\<forall>d t. find (\<lambda>d. get_field d ''_id'' = get_field decoded ''id'') (docs w) = Some d \<longrightarrow>
                 cache_get (snd (resolveToken e c token w)) token t =
                   (if t \<le> clock c + 60 * 60 * 1000 then Some (Doc_reply (Some d)) else None)) \<and>
         (\<forall>t. find (\<lambda>d. get_field d ''_id'' = get_field decoded ''id'') (docs w) = None \<longrightarrow>
              cache_get (snd (resolveToken e c token w)) token t = None)"
  using assms
  by (auto simp: resolveToken_def resolveToken_handler_def getById_def findById_def
        await_def succeed_def cache_get_cache_set)

theorem resolveToken_lookup_witness:
  "jwt_verify alice_token (JWT_SECRET example_env) (clock (anonymous 1000)) =
     Inr [(''id'', Oid 1), (''username'', Str ''alice''), (''exp'', Number 5000)] \<and>
   truthy (Oid 1) \<and> reachable example_world \<and>
   cache_get example_world alice_token (clock (anonymous 1000)) = None \<and>
   find (\<lambda>d. get_field d ''_id'' = Oid 1) (docs example_world) = Some alice \<and>
   fst (resolveToken example_env (anonymous 1000) alice_token example_world) =
     Inr (Doc_reply (Some alice)) \<and>
   cache_get (snd (resolveToken example_env (anonymous 1000) alice_token example_world))
     alice_token 3601000 = Some (Doc_reply (Some alice)) \<and>
   cache_get (snd (resolveToken example_env (anonymous 1000) alice_token example_world))
     alice_token 3601001 = None"
proof -
  let ?p = "[(''id'', Oid 1), (''username'', Str ''alice''), (''exp'', Number 5000)]"
  let ?w = "snd (resolveToken example_env (anonymous 1000) alice_token example_world)"
  have v: "jwt_verify alice_token (JWT_SECRET example_env) (clock (anonymous 1000)) = Inr ?p"
    by code_simp
  have i: "get_field ?p ''id'' = Oid 1" by code_simp
  have t: "truthy (get_field ?p ''id'')" by code_simp
  have r: "reachable example_world" by code_simp
  have m: "cache_get example_world alice_token (clock (anonymous 1000)) = None" by code_simp
  have f: "find (\<lambda>d. get_field d ''_id'' = Oid 1) (docs example_world) = Some alice"
    by code_simp
  have f': "find (\<lambda>d. get_field d ''_id'' = get_field ?p ''id'') (docs example_world) =
              Some alice"
    by code_simp
  have k: "clock (anonymous 1000) + 60 * 60 * 1000 = 3601000" by code_simp
  note l = resolveToken_lookup [OF v t r m]
  from l f' have a: "fst (resolveToken example_env (anonymous 1000) alice_token example_world) =
          Inr (Doc_reply (Some alice))"
    by simp
  note l2 = l [THEN conjunct2, THEN conjunct1, rule_format, OF f']
  from l2 [of 3601000] k
  have b: "cache_get ?w alice_token 3601000 = Some (Doc_reply (Some alice))"
    by (simp only: if_True order_refl)
  from l2 [of 3601001] k
  have c: "cache_get ?w alice_token 3601001 = None"
    by (simp only:) simp
  from v r m f a b c show ?thesis by simp
qed

theorem resolveToken_missing_account_counterexample:
  "jwt_verify ghost_token (JWT_SECRET example_env) (clock (anonymous 1000)) =
     Inr [(''id'', Oid 9), (''username'', Str ''ghost''), (''exp'', Number 5000)] \<and>
   find (\<lambda>d. get_field d ''_id'' = Oid 9) (docs example_world) = None \<and>
   fst (resolveToken example_env (anonymous 1000) ghost_token example_world) =
     Inr (Doc_reply None)"
  by code_simp

subsection \<open>What the actions return\<close>

text \<open>
  C1, as the code has it. Every action that passes its document through
  \<open>transformDocuments\<close> (\<open>create\<close>, \<open>login\<close>, \<open>me\<close>, \<open>updateMyself\<close>,
  \<open>getbygitID\<close>) returns a value in which no field is named \<open>password\<close>; and for a
  valid candidate without an \<^verbatim>\<open>_id\<close> of its own, whose username and email no account has,
  \<open>create\<close> succeeds on a store that answers, so that the profile it returns has none.
\<close>

theorem transformed_replies_hide_password:
  "(\<forall>r. fst (create e c entity w) = Inr r \<longrightarrow> ''password'' \<notin> set (reply_fields r)) \<and>
   (\<forall>r. fst (login e c email password w) = Inr r \<longrightarrow> ''password'' \<notin> set (reply_fields r)) \<and>
   (\<forall>r. fst (me e c w) = Inr r \<longrightarrow> ''password'' \<notin> set (reply_fields r)) \<and>
   (\<forall>r. fst (updateMyself e c newData w) = Inr r \<longrightarrow> ''password'' \<notin> set (reply_fields r)) \<and>
   (\<forall>r. fst (getbygitID i w) = Inr r \<longrightarrow> ''password'' \<notin> set (reply_fields r)) \<and>
   (entityValidator e entity \<and> reachable w \<and> get_field entity ''_id'' = Undefined \<and>
    (\<forall>d\<in>set (docs w). get_field d ''username'' \<noteq> get_field entity ''username'') \<and>
    (\<forall>d\<in>set (docs w). get_field d ''email'' \<noteq> get_field entity ''email'') \<longrightarrow>
      (\<exists>r. fst (create e c entity w) = Inr r \<and> ''password'' \<notin> set (reply_fields r)))"
proof -
  have a: "''password'' \<notin> set (reply_fields r)" if "fst (create e c entity w) = Inr r" for r
    using create_hides_password [OF pair_fst [OF that]] .
  have b: "''password'' \<notin> set (reply_fields r)"
    if "fst (login e c email password w) = Inr r" for r
    using login_hides_password [OF pair_fst [OF that]] .
  have m: "''password'' \<notin> set (reply_fields r)" if "fst (me e c w) = Inr r" for r
    using me_hides_password [OF pair_fst [OF that]] .
  have u: "''password'' \<notin> set (reply_fields r)"
    if "fst (updateMyself e c newData w) = Inr r" for r
    using updateMyself_hides_password [OF pair_fst [OF that]] .
  have g: "''password'' \<notin> set (reply_fields r)" if "fst (getbygitID i w) = Inr r" for r
    using getbygitID_hides_password [OF pair_fst [OF that]] .
  have s: "\<exists>r. fst (create e c entity w) = Inr r \<and> ''password'' \<notin> set (reply_fields r)"
    if "entityValidator e entity" "reachable w" "get_field entity ''_id'' = Undefined"
       "\<forall>d\<in>set (docs w). get_field d ''username'' \<noteq> get_field entity ''username''"
       "\<forall>d\<in>set (docs w). get_field d ''email'' \<noteq> get_field entity ''email''"
    using create_succeeds [OF that, of c] a by blast
  from a b m u g s show ?thesis by blast
qed

theorem transformed_replies_hide_password_witness:
  "entityValidator example_env bob_candidate \<and> reachable example_world \<and>
   get_field bob_candidate ''_id'' = Undefined \<and>
   list_all (\<lambda>d. get_field d ''username'' \<noteq> get_field bob_candidate ''username'')
     (docs example_world) \<and>
   list_all (\<lambda>d. get_field d ''email'' \<noteq> get_field bob_candidate ''email'')
     (docs example_world) \<and>
   \<not> isl (fst (create example_env (anonymous 1000) bob_candidate example_world)) \<and>
   ''password'' \<notin> set (reply_fields (projr (fst
      (create example_env (anonymous 1000) bob_candidate example_world)))) \<and>
   \<not> isl (fst (login example_env (anonymous 1000) ''alice@example.org'' ''secret1''
                example_world)) \<and>
   ''password'' \<notin> set (reply_fields (projr (fst
      (login example_env (anonymous 1000) ''alice@example.org'' ''secret1'' example_world)))) \<and>
   \<not> isl (fst (me example_env (alice_session 1000) example_world)) \<and>
   ''password'' \<notin> set (reply_fields (projr (fst
      (me example_env (alice_session 1000) example_world)))) \<and>
   \<not> isl (fst (updateMyself example_env (alice_session 1000)
                [(''password'', Str ''changed1'')] example_world)) \<and>
   ''password'' \<notin> set (reply_fields (projr (fst
      (updateMyself example_env (alice_session 1000)
         [(''password'', Str ''changed1'')] example_world)))) \<and>
   \<not> isl (fst (getbygitID (Str ''42'') example_world)) \<and>
   ''password'' \<notin> set (reply_fields (projr (fst (getbygitID (Str ''42'') example_world))))"
proof -
  let ?c = "fst (create example_env (anonymous 1000) bob_candidate example_world)"
  let ?l = "fst (login example_env (anonymous 1000) ''alice@example.org'' ''secret1''
                   example_world)"
  let ?m = "fst (me example_env (alice_session 1000) example_world)"
  let ?u = "fst (updateMyself example_env (alice_session 1000)
                   [(''password'', Str ''changed1'')] example_world)"
  let ?g = "fst (getbygitID (Str ''42'') example_world)"
  have v: "entityValidator example_env bob_candidate" by code_simp
  have r: "reachable example_world" by code_simp
  have n: "get_field bob_candidate ''_id'' = Undefined" by code_simp
  have fu: "\<forall>d\<in>set (docs example_world).
              get_field d ''username'' \<noteq> get_field bob_candidate ''username''"
    by code_simp
  have fe: "\<forall>d\<in>set (docs example_world).
              get_field d ''email'' \<noteq> get_field bob_candidate ''email''"
    by code_simp
  have il: "\<not> isl ?l" by code_simp
  have im: "\<not> isl ?m" by code_simp
  have iu: "\<not> isl ?u" by code_simp
  have ig: "\<not> isl ?g" by code_simp
  note t = transformed_replies_hide_password
             [of example_env "anonymous 1000" bob_candidate example_world
                 "''alice@example.org''" "''secret1''" "[(''password'', Str ''changed1'')]"
                 "Str ''42''"]
  note t' = transformed_replies_hide_password
             [of example_env "alice_session 1000" bob_candidate example_world
                 "''alice@example.org''" "''secret1''" "[(''password'', Str ''changed1'')]"
                 "Str ''42''"]
  from t v r n fu fe obtain r0 where "?c = Inr r0" and "''password'' \<notin> set (reply_fields r0)"
    by blast
  then have ic: "\<not> isl ?c" and pc: "''password'' \<notin> set (reply_fields (projr ?c))"
    by simp_all
  from t il have pl: "''password'' \<notin> set (reply_fields (projr ?l))"
    by (metis sum.collapse(2))
  from t' im have pm: "''password'' \<notin> set (reply_fields (projr ?m))"
    by (metis sum.collapse(2))
  from t' iu have pu: "''password'' \<notin> set (reply_fields (projr ?u))"
    by (metis sum.collapse(2))
  from t ig have pg: "''password'' \<notin> set (reply_fields (projr ?g))"
    by (metis sum.collapse(2))
  from fu fe have
    "list_all (\<lambda>d. get_field d ''username'' \<noteq> get_field bob_candidate ''username'')
       (docs example_world)"
    "list_all (\<lambda>d. get_field d ''email'' \<noteq> get_field bob_candidate ''email'')
       (docs example_world)"
    by (simp_all add: list_all_iff)
  with v r n ic pc il pl im pm iu pu ig pg show ?thesis
    by blast
qed

theorem resolveToken_returns_password_counterexample:
  "fst (resolveToken example_env (anonymous 1000) alice_token example_world) =
     Inr (Doc_reply (Some alice)) \<and>
   ''password'' \<in> set (reply_fields (Doc_reply (Some alice)))"
  by code_simp

end
